theory Spec2Isabelle
  imports Complex_Main
begin

section \<open>The link-level simulation script FullMimoOfdmSystemSimV1.0.py\<close>

text \<open>
  The script wires blocks of an external physical-layer library into a Keras model
  (\<open>MimoOfdmSystemModel\<close>) and then drives a Monte-Carlo study over it. The library is not
  part of the repository: every constructor call of the script is recorded here as a value
  that holds the arguments the script passes, and every library function the script calls
  at run time is a parameter of the embedding (the record \<open>sionna\<close> below). Python floats
  appear only as literals and as values passed through, never in arithmetic of the script
  whose rounding could matter; they are embedded as \<open>real\<close>. Python integers are \<open>int\<close>.
\<close>

subsection \<open>Objects built by the constructor\<close>

datatype py_error = AttributeError | IndexError

record resource_grid =
  rg_num_ofdm_symbols :: int
  rg_fft_size :: int
  rg_subcarrier_spacing :: real
  rg_num_tx :: int
  rg_num_streams_per_tx :: int
  rg_cyclic_prefix_length :: int
  rg_pilot_pattern :: string
  rg_pilot_ofdm_symbol_indices :: "int list"

datatype stream_management = StreamManagement "int list list" int

record antenna_array =
  aa_num_rows :: int
  aa_num_cols :: int
  aa_polarization :: string
  aa_polarization_type :: string
  aa_antenna_pattern :: string
  aa_carrier_frequency :: real

text \<open>Keyword arguments of \<open>UMi\<close> and \<open>UMa\<close>.\<close>

record urban_args =
  u_carrier_frequency :: real
  u_o2i_model :: string
  u_ut_array :: antenna_array
  u_bs_array :: antenna_array
  u_direction :: string
  u_enable_pathloss :: bool
  u_enable_shadow_fading :: bool

text \<open>Keyword arguments of \<open>RMa\<close> (no outdoor-to-indoor model).\<close>

record rural_args =
  r_carrier_frequency :: real
  r_ut_array :: antenna_array
  r_bs_array :: antenna_array
  r_direction :: string
  r_enable_pathloss :: bool
  r_enable_shadow_fading :: bool

text \<open>Keyword arguments of \<open>CDL\<close>.\<close>

record cdl_args =
  cdl_model :: string
  cdl_delay_spread :: real
  cdl_carrier_frequency :: real
  cdl_ut_array :: antenna_array
  cdl_bs_array :: antenna_array
  cdl_direction :: string
  cdl_min_speed :: real

datatype channel_model =
    UMi urban_args
  | UMa urban_args
  | RMa rural_args
  | CDL cdl_args

datatype binary_source = BinarySource
datatype qam_source = QAMSource int
datatype ldpc5g_encoder = LDPC5GEncoder int int
datatype ldpc5g_decoder = LDPC5GDecoder ldpc5g_encoder
datatype mapper = Mapper string int
datatype resource_grid_mapper = ResourceGridMapper resource_grid

record ofdm_channel_args =
  oc_channel_model :: channel_model
  oc_resource_grid :: resource_grid
  oc_add_awgn :: bool
  oc_normalize_channel :: bool
  oc_return_channel :: bool

datatype ofdm_channel = OFDMChannel ofdm_channel_args
datatype remove_nulled_subcarriers = RemoveNulledSubcarriers resource_grid
datatype ls_channel_estimator = LSChannelEstimator resource_grid string
datatype lmmse_equalizer = LMMSEEqualizer resource_grid stream_management
datatype demapper = Demapper string string int

subsection \<open>The model object\<close>

text \<open>
  One field per attribute that \<open>__init__\<close> assigns, named as the attribute without its
  leading underscore.
\<close>

record MimoOfdmSystemModel =
  scenario :: string
  perfect_csi :: bool
  direction :: string
  speed :: real
  carrier_frequency :: real
  delay_spread :: real
  fft_size :: int
  subcarrier_spacing :: real
  num_ofdm_symbols :: int
  cyclic_prefix_length :: int
  pilot_ofdm_symbol_indices :: "int list"
  num_bs :: int
  num_bs_ant :: int
  num_ut :: int
  num_ut_ant :: int
  num_bits_per_symbol :: int
  coderate :: real
  rx_tx_association :: "int list list"
  num_tx :: int
  num_streams_per_tx :: int
  rg :: resource_grid
  sm :: stream_management
  ut_array :: antenna_array
  bs_array :: antenna_array
  channel_model :: channel_model
  binary_source :: binary_source
  qam_source :: qam_source
  n :: int
  k :: int
  encoder :: ldpc5g_encoder
  decoder :: ldpc5g_decoder
  mapper :: mapper
  rg_mapper :: resource_grid_mapper
  ofdm_channel :: ofdm_channel
  remove_nulled_subcarriers :: remove_nulled_subcarriers
  ls_est :: ls_channel_estimator
  lmmse_equ :: lmmse_equalizer
  demapper :: demapper

text \<open>Python's \<open>int(x)\<close> on a float: truncation towards zero.\<close>

definition py_int :: "real \<Rightarrow> int" where
  "py_int x = (if 0 \<le> x then \<lfloor>x\<rfloor> else \<lceil>x\<rceil>)"

text \<open>
  The \<open>if\<close>/\<open>elif\<close> chain of lines 135 to 167. It has no \<open>else\<close>: for any other scenario
  the attribute \<open>_channel_model\<close> is never assigned, which is the value \<open>None\<close> here.
\<close>

definition select_channel_model ::
  "string \<Rightarrow> string \<Rightarrow> real \<Rightarrow> real \<Rightarrow> real \<Rightarrow> antenna_array \<Rightarrow> antenna_array
     \<Rightarrow> channel_model option" where
  "select_channel_model sc dir sp cf ds ut bs =
     (if sc = ''umi'' then
        Some (UMi \<lparr>u_carrier_frequency = cf, u_o2i_model = ''low'', u_ut_array = ut,
                   u_bs_array = bs, u_direction = dir, u_enable_pathloss = False,
                   u_enable_shadow_fading = False\<rparr>)
      else if sc = ''uma'' then
        Some (UMa \<lparr>u_carrier_frequency = cf, u_o2i_model = ''low'', u_ut_array = ut,
                   u_bs_array = bs, u_direction = dir, u_enable_pathloss = False,
                   u_enable_shadow_fading = False\<rparr>)
      else if sc = ''rma'' then
        Some (RMa \<lparr>r_carrier_frequency = cf, r_ut_array = ut, r_bs_array = bs,
                   r_direction = dir, r_enable_pathloss = False,
                   r_enable_shadow_fading = False\<rparr>)
      else if sc = ''A'' \<or> sc = ''B'' \<or> sc = ''C'' \<or> sc = ''D'' \<or> sc = ''E'' then
        Some (CDL \<lparr>cdl_model = sc, cdl_delay_spread = ds, cdl_carrier_frequency = cf,
                   cdl_ut_array = ut, cdl_bs_array = bs, cdl_direction = dir,
                   cdl_min_speed = sp\<rparr>)
      else None)"

text \<open>
  \<open>__init__\<close>. The parameter \<open>num_data_symbols\<close> is the library's property of that name
  of a resource grid. Reading \<open>self._channel_model\<close> at line 182 raises
  \<open>AttributeError\<close> when no branch assigned it; nothing else in the constructor depends
  on the scenario.
\<close>

definition init ::
  "(resource_grid \<Rightarrow> int) \<Rightarrow> string \<Rightarrow> bool \<Rightarrow> string \<Rightarrow> real \<Rightarrow> real
     \<Rightarrow> py_error + MimoOfdmSystemModel" where
  "init num_data_symbols sc pcsi dir sp cf =
     (let ds = 300 / 10 ^ 9;
          fft = 76;
          scs = 30000;
          nsym = 14;
          cp = 20;
          pil = [2, 11];
          nbs = 1;
          nbsant = 8;
          nut = 1;
          nutant = 4;
          nbits = 2;
          cr = 1 / 2;
          assoc = [[1]];
          ntx = nut;
          nstr = nutant;
          g = \<lparr>rg_num_ofdm_symbols = nsym, rg_fft_size = fft, rg_subcarrier_spacing = scs,
               rg_num_tx = ntx, rg_num_streams_per_tx = nstr, rg_cyclic_prefix_length = cp,
               rg_pilot_pattern = ''kronecker'', rg_pilot_ofdm_symbol_indices = pil\<rparr>;
          s = StreamManagement assoc nstr;
          ut = \<lparr>aa_num_rows = 1, aa_num_cols = py_int (real_of_int nutant / 2),
                aa_polarization = ''dual'', aa_polarization_type = ''cross'',
                aa_antenna_pattern = ''38.901'', aa_carrier_frequency = cf\<rparr>;
          bs = \<lparr>aa_num_rows = 1, aa_num_cols = py_int (real_of_int nbsant / 2),
                aa_polarization = ''dual'', aa_polarization_type = ''cross'',
                aa_antenna_pattern = ''38.901'', aa_carrier_frequency = cf\<rparr>;
          cm_attr = select_channel_model sc dir sp cf ds ut bs;
          nn = num_data_symbols g * nbits;
          kk = py_int (real_of_int nn * cr);
          enc = LDPC5GEncoder kk nn
      in case cm_attr of
           None \<Rightarrow> Inl AttributeError
         | Some cm \<Rightarrow>
             Inr \<lparr>scenario = sc, perfect_csi = pcsi, direction = dir, speed = sp,
                  carrier_frequency = cf, delay_spread = ds, fft_size = fft,
                  subcarrier_spacing = scs, num_ofdm_symbols = nsym,
                  cyclic_prefix_length = cp, pilot_ofdm_symbol_indices = pil,
                  num_bs = nbs, num_bs_ant = nbsant, num_ut = nut, num_ut_ant = nutant,
                  num_bits_per_symbol = nbits, coderate = cr, rx_tx_association = assoc,
                  num_tx = ntx, num_streams_per_tx = nstr, rg = g, sm = s,
                  ut_array = ut, bs_array = bs, channel_model = cm,
                  binary_source = BinarySource, qam_source = QAMSource nbits,
                  n = nn, k = kk, encoder = enc, decoder = LDPC5GDecoder enc,
                  mapper = Mapper ''qam'' nbits, rg_mapper = ResourceGridMapper g,
                  ofdm_channel = OFDMChannel \<lparr>oc_channel_model = cm, oc_resource_grid = g,
                    oc_add_awgn = True, oc_normalize_channel = True,
                    oc_return_channel = True\<rparr>,
                  remove_nulled_subcarriers = RemoveNulledSubcarriers g,
                  ls_est = LSChannelEstimator g ''nn'',
                  lmmse_equ = LMMSEEqualizer g s,
                  demapper = Demapper ''app'' ''qam'' nbits\<rparr>)"

subsection \<open>The library at run time\<close>

text \<open>
  The error variance handed to the equalizer is either the Python float \<open>0.0\<close> or a tensor
  returned by the estimator.
\<close>

datatype 't py_value = PyFloat real | Tensor 't

text \<open>
  The library functions the forward pass calls, as parameters: \<open>'t\<close> is the type of
  tensors, \<open>'top\<close> of a topology (the tuple \<open>gen_topology\<close> returns), \<open>'r\<close> the state of the
  random number generator, which the blocks that draw random values read and advance.
  The channel reads the topology that \<open>set_topology\<close> stored in the channel model.
\<close>

record ('t, 'top, 'r) sionna =
  gen_topology :: "int \<Rightarrow> int \<Rightarrow> string \<Rightarrow> real \<Rightarrow> real \<Rightarrow> 'r \<Rightarrow> 'top \<times> 'r"
  ebnodb2no :: "real \<Rightarrow> int \<Rightarrow> real \<Rightarrow> resource_grid \<Rightarrow> 't"
  binary_source_call :: "binary_source \<Rightarrow> int list \<Rightarrow> 'r \<Rightarrow> 't \<times> 'r"
  encoder_call :: "ldpc5g_encoder \<Rightarrow> 't \<Rightarrow> 't"
  mapper_call :: "mapper \<Rightarrow> 't \<Rightarrow> 't"
  rg_mapper_call :: "resource_grid_mapper \<Rightarrow> 't \<Rightarrow> 't"
  ofdm_channel_call :: "ofdm_channel \<Rightarrow> 'top option \<Rightarrow> 't \<Rightarrow> 't \<Rightarrow> 'r \<Rightarrow> ('t \<times> 't) \<times> 'r"
  remove_nulled_subcarriers_call :: "remove_nulled_subcarriers \<Rightarrow> 't \<Rightarrow> 't"
  ls_est_call :: "ls_channel_estimator \<Rightarrow> 't \<Rightarrow> 't \<Rightarrow> 't \<times> 't"
  lmmse_equ_call :: "lmmse_equalizer \<Rightarrow> 't \<Rightarrow> 't \<Rightarrow> 't py_value \<Rightarrow> 't \<Rightarrow> 't \<times> 't"
  demapper_call :: "demapper \<Rightarrow> 't \<Rightarrow> 't \<Rightarrow> 't"
  decoder_call :: "ldpc5g_decoder \<Rightarrow> 't \<Rightarrow> 't"

text \<open>
  What a forward pass does besides returning: each library call, with the arguments it
  received, in the order of the calls.
\<close>

datatype ('t, 'top) event =
    EvGenTopology int int string real real
  | EvSetTopology 'top
  | EvEbnodb2no real int real resource_grid
  | EvBinarySource "int list"
  | EvEncoder 't
  | EvMapper 't
  | EvRgMapper 't
  | EvOfdmChannel 't 't
  | EvRemoveNulledSubcarriers 't
  | EvLsEst 't 't
  | EvLmmseEqu 't 't "'t py_value" 't
  | EvDemapper 't 't
  | EvDecoder 't

text \<open>
  The mutable state around a model: the generator, the topology installed in the channel
  model (shared with the OFDM channel, which holds the same channel-model object), and
  the calls made so far.
\<close>

record ('t, 'top, 'r) state =
  rng :: 'r
  topology :: "'top option"
  trace :: "('t, 'top) event list"

definition log :: "('t, 'top) event \<Rightarrow> ('t, 'top, 'r) state \<Rightarrow> ('t, 'top, 'r) state" where
  "log ev st = st\<lparr>trace := trace st @ [ev]\<rparr>"

text \<open>\<open>new_topology\<close>, lines 190 to 198.\<close>

definition new_topology ::
  "('t, 'top, 'r) sionna \<Rightarrow> MimoOfdmSystemModel \<Rightarrow> int \<Rightarrow> ('t, 'top, 'r) state
     \<Rightarrow> ('t, 'top, 'r) state" where
  "new_topology lib m batch_size st =
     (let (topo, r) = gen_topology lib batch_size (num_ut m) (scenario m) (speed m) (speed m)
                        (rng st);
          st1 = log (EvGenTopology batch_size (num_ut m) (scenario m) (speed m) (speed m))
                  (st\<lparr>rng := r\<rparr>)
      in log (EvSetTopology topo) (st1\<lparr>topology := Some topo\<rparr>))"

text \<open>
  \<open>call\<close>, lines 204 to 222, statement by statement. The decorator \<open>tf.function\<close> compiles
  the method; the embedding follows the Python body, which is what the compiled graph
  computes on each pass.
\<close>

definition call ::
  "('t, 'top, 'r) sionna \<Rightarrow> MimoOfdmSystemModel \<Rightarrow> int \<Rightarrow> real \<Rightarrow> ('t, 'top, 'r) state
     \<Rightarrow> ('t \<times> 't) \<times> ('t, 'top, 'r) state" where
  "call lib m batch_size ebno_db st0 =
     (let st1 = (if scenario m = ''umi'' \<or> scenario m = ''uma'' \<or> scenario m = ''rma''
                 then new_topology lib m batch_size st0 else st0);
          no = ebnodb2no lib ebno_db (num_bits_per_symbol m) (coderate m) (rg m);
          st2 = log (EvEbnodb2no ebno_db (num_bits_per_symbol m) (coderate m) (rg m)) st1;
          shp = [batch_size, num_tx m, num_streams_per_tx m, k m];
          (b, r3) = binary_source_call lib (binary_source m) shp (rng st2);
          st3 = log (EvBinarySource shp) (st2\<lparr>rng := r3\<rparr>);
          c = encoder_call lib (encoder m) b;
          st4 = log (EvEncoder b) st3;
          x = mapper_call lib (mapper m) c;
          st5 = log (EvMapper c) st4;
          x_rg = rg_mapper_call lib (rg_mapper m) x;
          st6 = log (EvRgMapper x) st5;
          ((y, h), r7) = ofdm_channel_call lib (ofdm_channel m) (topology st6) x_rg no (rng st6);
          st7 = log (EvOfdmChannel x_rg no) (st6\<lparr>rng := r7\<rparr>);
          (h_hat, err_var, st8) =
            (if perfect_csi m then
               (remove_nulled_subcarriers_call lib (remove_nulled_subcarriers m) h,
                PyFloat 0, log (EvRemoveNulledSubcarriers h) st7)
             else
               (let (hh, ev) = ls_est_call lib (ls_est m) y no
                in (hh, Tensor ev, log (EvLsEst y no) st7)));
          (x_hat, no_eff) = lmmse_equ_call lib (lmmse_equ m) y h_hat err_var no;
          st9 = log (EvLmmseEqu y h_hat err_var no) st8;
          llr = demapper_call lib (demapper m) x_hat no_eff;
          st10 = log (EvDemapper x_hat no_eff) st9;
          b_hat = decoder_call lib (decoder m) llr;
          st11 = log (EvDecoder llr) st10
      in ((b, b_hat), st11))"

subsection \<open>Reading a trace\<close>

definition new_events ::
  "('t, 'top, 'r) state \<Rightarrow> ('t, 'top, 'r) state \<Rightarrow> ('t, 'top) event list" where
  "new_events st st' = drop (length (trace st)) (trace st')"

fun csi_event :: "('t, 'top) event \<Rightarrow> bool" where
  "csi_event (EvRemoveNulledSubcarriers h) = True"
| "csi_event (EvLsEst y no) = True"
| "csi_event (EvLmmseEqu y h ev no) = True"
| "csi_event _ = False"

fun topology_event :: "('t, 'top) event \<Rightarrow> bool" where
  "topology_event (EvGenTopology b u s v w) = True"
| "topology_event (EvSetTopology t) = True"
| "topology_event _ = False"

subsection \<open>The study\<close>

text \<open>\<open>np.arange(start, stop, step)\<close> on floats.\<close>

definition arange :: "real \<Rightarrow> real \<Rightarrow> real \<Rightarrow> real list" where
  "arange start stop step =
     map (\<lambda>i. start + real i * step) [0..<nat \<lceil>(stop - start) / step\<rceil>]"

text \<open>The dictionary \<open>MOBILITY_SIMS\<close>: its keys are fixed, so it is a record.\<close>

record mobility_sims =
  sims_ebno_db :: "real list"
  sims_scenario :: "string list"
  sims_perfect_csi :: "bool list"
  sims_direction :: "string list"
  sims_carrier_frequency :: "real list"
  sims_speed :: "real list"
  sims_ber :: "real list list"
  sims_bler :: "real list list"
  sims_duration :: "real option"

definition MOBILITY_SIMS :: mobility_sims where
  "MOBILITY_SIMS =
     \<lparr>sims_ebno_db = arange (- 5) 15 1,
      sims_scenario = [''umi''],
      sims_perfect_csi = [True, False],
      sims_direction = [''uplink'', ''downlink''],
      sims_carrier_frequency = [3500000000, 28000000000, 60000000000],
      sims_speed = [0, 15, 30],
      sims_ber = [],
      sims_bler = [],
      sims_duration = None\<rparr>"

text \<open>\<open>xs[i]\<close> for a literal index \<open>i \<ge> 0\<close>.\<close>

definition index :: "'a list \<Rightarrow> nat \<Rightarrow> py_error + 'a" where
  "index xs i = (if i < length xs then Inr (xs ! i) else Inl IndexError)"

text \<open>
  The arguments of one call of the library's \<open>sim_ber\<close>, and the script's state: the
  dictionary, the state \<open>'w\<close> that \<open>sim_ber\<close> reads and changes (the generator, the
  compiled graph), and the calls of \<open>sim_ber\<close> made so far.
\<close>

record sim_ber_call =
  sb_model :: MimoOfdmSystemModel
  sb_ebno_dbs :: "real list"
  sb_batch_size :: int
  sb_max_mc_iter :: int
  sb_num_target_block_errors :: int

record 'w script =
  sims :: mobility_sims
  world :: 'w
  sim_ber_calls :: "sim_ber_call list"

type_synonym 'w sim_ber =
  "MimoOfdmSystemModel \<Rightarrow> real list \<Rightarrow> int \<Rightarrow> int \<Rightarrow> int \<Rightarrow> 'w \<Rightarrow> (real list \<times> real list) \<times> 'w"

text \<open>
  The loop of lines 244 to 260 over the scenario list. The loops over the speeds and the
  carrier frequencies are commented out in the source: \<open>speed\<close> and \<open>c_freq\<close> are fixed
  before the loop. An exception ends the script.
\<close>

fun scenario_loop ::
  "'w sim_ber \<Rightarrow> (resource_grid \<Rightarrow> int) \<Rightarrow> real \<Rightarrow> real \<Rightarrow> string list \<Rightarrow> 'w script
     \<Rightarrow> py_error + 'w script" where
  "scenario_loop sim nds spd c_freq [] s = Inr s"
| "scenario_loop sim nds spd c_freq (sc # scs) s =
     (case index (sims_perfect_csi (sims s)) 1 of
        Inl e \<Rightarrow> Inl e
      | Inr pcsi \<Rightarrow>
     (case index (sims_direction (sims s)) 0 of
        Inl e \<Rightarrow> Inl e
      | Inr dir \<Rightarrow>
     (case init nds sc pcsi dir spd c_freq of
        Inl e \<Rightarrow> Inl e
      | Inr model \<Rightarrow>
          (let ((ber, bler), w) = sim model (sims_ebno_db (sims s)) 76 100 1000 (world s);
               d = sims s;
               d1 = d\<lparr>sims_ber := sims_ber d @ [ber]\<rparr>;
               d2 = d1\<lparr>sims_bler := sims_bler d1 @ [bler]\<rparr>
           in scenario_loop sim nds spd c_freq scs
                (s\<lparr>sims := d2, world := w,
                   sim_ber_calls := sim_ber_calls s @
                     [\<lparr>sb_model = model, sb_ebno_dbs = sims_ebno_db d, sb_batch_size = 76,
                       sb_max_mc_iter = 100, sb_num_target_block_errors = 1000\<rparr>]\<rparr>)))))"

text \<open>
  Lines 239 to 262; \<open>t0\<close> and \<open>t1\<close> are the two readings of \<open>time.time()\<close>.
\<close>

definition driver ::
  "'w sim_ber \<Rightarrow> (resource_grid \<Rightarrow> int) \<Rightarrow> real \<Rightarrow> real \<Rightarrow> 'w script \<Rightarrow> py_error + 'w script" where
  "driver sim nds t0 t1 s =
     (case index (sims_speed (sims s)) 0 of
        Inl e \<Rightarrow> Inl e
      | Inr spd \<Rightarrow>
     (case index (sims_carrier_frequency (sims s)) 0 of
        Inl e \<Rightarrow> Inl e
      | Inr c_freq \<Rightarrow>
     (case scenario_loop sim nds spd c_freq (sims_scenario (sims s)) s of
        Inl e \<Rightarrow> Inl e
      | Inr s' \<Rightarrow> Inr (s'\<lparr>sims := (sims s')\<lparr>sims_duration := Some (t1 - t0)\<rparr>\<rparr>))))"

text \<open>The state in which the script reaches line 239.\<close>

definition script_start :: "'w \<Rightarrow> 'w script" where
  "script_start w = \<lparr>sims = MOBILITY_SIMS, world = w, sim_ber_calls = []\<rparr>"

text \<open>Whether a simulation was run at a given speed, carrier frequency and CSI assumption.\<close>

definition simulated :: "'w script \<Rightarrow> real \<Rightarrow> real \<Rightarrow> bool \<Rightarrow> bool" where
  "simulated s spd c_freq pcsi =
     list_ex (\<lambda>c. speed (sb_model c) = spd \<and> carrier_frequency (sb_model c) = c_freq
                  \<and> perfect_csi (sb_model c) = pcsi) (sim_ber_calls s)"

subsection \<open>The Monte-Carlo loop of the library\<close>

text \<open>
  Modelled from the spec: \<open>sim_ber\<close>, the Monte-Carlo loop of the external library, is not
  among the sources. For one Eb/N0 point it simulates batches, adds up their block errors,
  stops early once the target number of block errors is reached and otherwise ends after
  the maximum number of iterations. \<open>errs i\<close> is the number of block errors of the batch
  with index \<open>i\<close>; the third argument counts the iterations left, the fourth the batches
  done, the fifth the block errors so far. The result is the number of batches simulated
  and the block errors accumulated.
\<close>

fun mc_loop :: "(nat \<Rightarrow> nat) \<Rightarrow> nat \<Rightarrow> nat \<Rightarrow> nat \<Rightarrow> nat \<Rightarrow> nat \<times> nat" where
  "mc_loop errs target 0 i acc = (i, acc)"
| "mc_loop errs target (Suc left) i acc =
     (let acc' = acc + errs i
      in if target \<le> acc' then (Suc i, acc') else mc_loop errs target left (Suc i) acc')"

text \<open>
  Modelled from the spec: the sweep of \<open>sim_ber\<close> over the Eb/N0 points, one run of the
  loop per point; \<open>errs p\<close> gives the block errors of the batches at point \<open>p\<close>.
\<close>

definition sim_ber_batches ::
  "(real \<Rightarrow> nat \<Rightarrow> nat) \<Rightarrow> real list \<Rightarrow> int \<Rightarrow> int \<Rightarrow> (nat \<times> nat) list" where
  "sim_ber_batches errs ebno_dbs max_mc_iter num_target_block_errors =
     map (\<lambda>p. mc_loop (errs p) (nat num_target_block_errors) (nat max_mc_iter) 0 0) ebno_dbs"

subsection \<open>What the library documents about its results\<close>

text \<open>
  The library returns one BER and one BLER value per Eb/N0 point it was given.
\<close>

definition sim_ber_curves :: "'w sim_ber \<Rightarrow> bool" where
  "sim_ber_curves sim =
     (\<forall>m es b mx tg w. length (fst (fst (sim m es b mx tg w))) = length es \<and>
                        length (snd (fst (sim m es b mx tg w))) = length es)"












subsection \<open>An instance for evaluation\<close>

text \<open>
  A small library in which a tensor is its shape, a topology is the pair of its sizes and
  the generator is a counter; one base station with eight antennas receives. With it the
  model runs on concrete inputs.
\<close>

definition nds_kronecker :: "resource_grid \<Rightarrow> int" where
  "nds_kronecker g =
     rg_fft_size g * (rg_num_ofdm_symbols g - int (length (rg_pilot_ofdm_symbol_indices g)))"

definition shape_sionna :: "(int list, int list, nat) sionna" where
  "shape_sionna =
     \<lparr>gen_topology = (\<lambda>bs nut sc v w r. ([bs, nut], Suc r)),
      ebnodb2no = (\<lambda>e q cr g. []),
      binary_source_call = (\<lambda>src shp r. (shp, Suc r)),
      encoder_call = (\<lambda>enc t. case enc of LDPC5GEncoder kk nn \<Rightarrow> butlast t @ [nn]),
      mapper_call = (\<lambda>mp t. case mp of Mapper c q \<Rightarrow> butlast t @ [last t div q]),
      rg_mapper_call = (\<lambda>rm t. case rm of ResourceGridMapper g \<Rightarrow>
                          take 3 t @ [rg_num_ofdm_symbols g, rg_fft_size g]),
      ofdm_channel_call = (\<lambda>oc tp x no r.
                             ((take 1 x @ [1, 8] @ drop 3 x, take 1 x @ [1, 8] @ drop 1 x),
                              Suc r)),
      remove_nulled_subcarriers_call = (\<lambda>rn h. case rn of RemoveNulledSubcarriers g \<Rightarrow>
                                          butlast h @ [rg_fft_size g]),
      ls_est_call = (\<lambda>est y no. case est of LSChannelEstimator g ip \<Rightarrow>
                       (take 3 y @ [rg_num_tx g, rg_num_streams_per_tx g] @ drop 3 y,
                        take 3 y @ [rg_num_tx g, rg_num_streams_per_tx g] @ drop 3 y)),
      lmmse_equ_call = (\<lambda>eq y h ev no. case eq of LMMSEEqualizer g s \<Rightarrow>
                          (take 1 y @ [rg_num_tx g, rg_num_streams_per_tx g, nds_kronecker g],
                           take 1 y @ [rg_num_tx g, rg_num_streams_per_tx g, nds_kronecker g])),
      demapper_call = (\<lambda>dm x no. case dm of Demapper mth c q \<Rightarrow> butlast x @ [last x * q]),
      decoder_call = (\<lambda>dec l. case dec of LDPC5GDecoder enc \<Rightarrow>
                        (case enc of LDPC5GEncoder kk nn \<Rightarrow> butlast l @ [kk]))\<rparr>"

definition shape_state :: "(int list, int list, nat) state" where
  "shape_state = \<lparr>rng = 0, topology = None, trace = []\<rparr>"

text \<open>A \<open>sim_ber\<close> that reports error rate zero at every point and leaves the state alone.\<close>

definition sim_ber_flat :: "unit sim_ber" where
  "sim_ber_flat m es b mx tg w = ((map (\<lambda>p. 0) es, map (\<lambda>p. 0) es), w)"

text \<open>The model the script builds for \<open>umi\<close>, and one for the profile CDL-C with perfect CSI.\<close>

definition umi_model :: MimoOfdmSystemModel where
  "umi_model = projr (init nds_kronecker ''umi'' False ''uplink'' 0 3500000000)"

definition cdl_model_c :: MimoOfdmSystemModel where
  "cdl_model_c = projr (init nds_kronecker ''C'' True ''uplink'' 15 3500000000)"

text \<open>The state the script ends in with that \<open>sim_ber\<close>.\<close>

definition study_result :: "unit script" where
  "study_result = projr (driver sim_ber_flat nds_kronecker 0 1 (script_start ()))"

section \<open>Properties\<close>

subsection \<open>Auxiliary facts\<close>

lemma py_int_of_int [simp]: "py_int (real_of_int i) = i"
  by (simp add: py_int_def)

lemma py_int_num [simp]: "py_int 2 = 2" "py_int 4 = 4"
  using py_int_of_int [of 2] py_int_of_int [of 4] by simp_all

lemma init_fields:
  assumes "init nds sc pc dir sp cf = Inr m"
  shows "scenario m = sc" "perfect_csi m = pc" "speed m = sp" "num_ut m = 1"
    "num_bits_per_symbol m = 2" "coderate m = 1 / 2" "num_tx m = 1" "num_streams_per_tx m = 4"
    "n m = nds (rg m) * 2" "k m = nds (rg m)"
    "binary_source m = BinarySource"
    "encoder m = LDPC5GEncoder (k m) (n m)" "decoder m = LDPC5GDecoder (encoder m)"
    "mapper m = Mapper ''qam'' 2" "rg_mapper m = ResourceGridMapper (rg m)"
    "remove_nulled_subcarriers m = RemoveNulledSubcarriers (rg m)"
    "ls_est m = LSChannelEstimator (rg m) ''nn''"
    "lmmse_equ m = LMMSEEqualizer (rg m) (sm m)"
    "demapper m = Demapper ''app'' ''qam'' 2"
    "ofdm_channel m = OFDMChannel \<lparr>oc_channel_model = channel_model m, oc_resource_grid = rg m,
        oc_add_awgn = True, oc_normalize_channel = True, oc_return_channel = True\<rparr>"
    "select_channel_model sc dir sp cf (300 / 10 ^ 9) (ut_array m) (bs_array m) = Some (channel_model m)"
    "rg m = \<lparr>rg_num_ofdm_symbols = 14, rg_fft_size = 76, rg_subcarrier_spacing = 30000,
             rg_num_tx = 1, rg_num_streams_per_tx = 4, rg_cyclic_prefix_length = 20,
             rg_pilot_pattern = ''kronecker'', rg_pilot_ofdm_symbol_indices = [2, 11]\<rparr>"
    "sm m = StreamManagement [[1]] 4"
  using assms by (auto simp: init_def Let_def split: option.splits)

lemma trace_log [simp]: "trace (log ev st) = trace st @ [ev]"
  and rng_log [simp]: "rng (log ev st) = rng st"
  and topology_log [simp]: "topology (log ev st) = topology st"
  by (simp_all add: log_def)

lemma new_topology_simps [simp]:
  "trace (new_topology lib m bs st) =
     trace st @ [EvGenTopology bs (num_ut m) (scenario m) (speed m) (speed m),
                 EvSetTopology (fst (gen_topology lib bs (num_ut m) (scenario m) (speed m) (speed m) (rng st)))]"
  "topology (new_topology lib m bs st) =
     Some (fst (gen_topology lib bs (num_ut m) (scenario m) (speed m) (speed m) (rng st)))"
  "rng (new_topology lib m bs st) =
     snd (gen_topology lib bs (num_ut m) (scenario m) (speed m) (speed m) (rng st))"
  by (simp_all add: new_topology_def Let_def split: prod.splits)

text \<open>
  Claim C2. Constructing the model with scenario \<open>umi\<close>, \<open>uma\<close> or \<open>rma\<close> configures the UMi,
  UMa or RMa channel model; with a profile \<open>A\<close> to \<open>E\<close> it configures the CDL model of that
  profile, with the delay spread of 300 ns and the given speed as minimum speed.
\<close>

theorem init_configures_channel_model:
  assumes "p = ''A'' \<or> p = ''B'' \<or> p = ''C'' \<or> p = ''D'' \<or> p = ''E''"
  shows "(\<exists>m. init nds ''umi'' pc dir sp cf = Inr m \<and>
            channel_model m = UMi \<lparr>u_carrier_frequency = cf, u_o2i_model = ''low'',
              u_ut_array = ut_array m, u_bs_array = bs_array m, u_direction = dir,
              u_enable_pathloss = False, u_enable_shadow_fading = False\<rparr>) \<and>
         (\<exists>m. init nds ''uma'' pc dir sp cf = Inr m \<and>
            channel_model m = UMa \<lparr>u_carrier_frequency = cf, u_o2i_model = ''low'',
              u_ut_array = ut_array m, u_bs_array = bs_array m, u_direction = dir,
              u_enable_pathloss = False, u_enable_shadow_fading = False\<rparr>) \<and>
         (\<exists>m. init nds ''rma'' pc dir sp cf = Inr m \<and>
            channel_model m = RMa \<lparr>r_carrier_frequency = cf,
              r_ut_array = ut_array m, r_bs_array = bs_array m, r_direction = dir,
              r_enable_pathloss = False, r_enable_shadow_fading = False\<rparr>) \<and>
         (\<exists>m. init nds p pc dir sp cf = Inr m \<and>
            channel_model m = CDL \<lparr>cdl_model = p, cdl_delay_spread = 300 / 10 ^ 9,
              cdl_carrier_frequency = cf, cdl_ut_array = ut_array m,
              cdl_bs_array = bs_array m, cdl_direction = dir, cdl_min_speed = sp\<rparr>)"
  using assms by (auto simp: init_def Let_def select_channel_model_def)

text \<open>
  Claim C8. For a scenario outside the eight supported strings no branch assigns the
  channel model, and the constructor fails with \<open>AttributeError\<close>.
\<close>

theorem init_unsupported_scenario_fails:
  assumes "sc \<notin> {''umi'', ''uma'', ''rma'', ''A'', ''B'', ''C'', ''D'', ''E''}"
  shows "select_channel_model sc dir sp cf ds ut bs = None \<and>
         init nds sc pc dir sp cf = Inl AttributeError"
  using assms by (simp add: init_def Let_def select_channel_model_def)

text \<open>
  Claim C6. The code is the library's 5G LDPC code with \<open>n = num_data_symbols * 2\<close> coded
  bits and \<open>k = n * 0.5\<close> information bits (the product is a whole number, so \<open>int\<close> loses
  nothing), and the decoder is built from the encoder of the model.
\<close>

theorem init_ldpc_code:
  assumes "init nds sc pc dir sp cf = Inr m"
  shows "num_bits_per_symbol m = 2 \<and> coderate m = 1 / 2 \<and>
         n m = nds (rg m) * num_bits_per_symbol m \<and>
         real_of_int (k m) = real_of_int (n m) * coderate m \<and>
         encoder m = LDPC5GEncoder (k m) (n m) \<and>
         decoder m = LDPC5GDecoder (encoder m)"
  using init_fields [OF assms] by simp

lemma call_trace:
  "trace (snd (call lib m bs e st)) =
     (let st1 = (if scenario m = ''umi'' \<or> scenario m = ''uma'' \<or> scenario m = ''rma''
                 then new_topology lib m bs st else st);
          no = ebnodb2no lib e (num_bits_per_symbol m) (coderate m) (rg m);
          shp = [bs, num_tx m, num_streams_per_tx m, k m];
          src = binary_source_call lib (binary_source m) shp (rng st1);
          b = fst src;
          c = encoder_call lib (encoder m) b;
          x = mapper_call lib (mapper m) c;
          x_rg = rg_mapper_call lib (rg_mapper m) x;
          ch = ofdm_channel_call lib (ofdm_channel m) (topology st1) x_rg no (snd src);
          y = fst (fst ch);
          h = snd (fst ch);
          h_hat = (if perfect_csi m
                   then remove_nulled_subcarriers_call lib (remove_nulled_subcarriers m) h
                   else fst (ls_est_call lib (ls_est m) y no));
          err_var = (if perfect_csi m then PyFloat 0
                     else Tensor (snd (ls_est_call lib (ls_est m) y no)));
          eq = lmmse_equ_call lib (lmmse_equ m) y h_hat err_var no;
          llr = demapper_call lib (demapper m) (fst eq) (snd eq)
      in trace st1 @
         [EvEbnodb2no e (num_bits_per_symbol m) (coderate m) (rg m), EvBinarySource shp,
          EvEncoder b, EvMapper c, EvRgMapper x, EvOfdmChannel x_rg no,
          (if perfect_csi m then EvRemoveNulledSubcarriers h else EvLsEst y no),
          EvLmmseEqu y h_hat err_var no, EvDemapper (fst eq) (snd eq), EvDecoder llr])"
  by (simp add: call_def Let_def split: prod.splits)


lemma call_topology:
  "topology (snd (call lib m bs e st)) =
     (if scenario m = ''umi'' \<or> scenario m = ''uma'' \<or> scenario m = ''rma''
      then topology (new_topology lib m bs st) else topology st)"
  by (simp add: call_def Let_def split: prod.splits)





lemma init_carrier_frequency:
  "init nds sc pc dir sp cf = Inr m \<Longrightarrow> carrier_frequency m = cf"
  by (auto simp: init_def Let_def split: option.splits)

lemma init_supported:
  assumes "init nds sc pc dir sp cf = Inr m"
  shows "sc = ''umi'' \<or> sc = ''uma'' \<or> sc = ''rma'' \<or> sc = ''A'' \<or> sc = ''B''
         \<or> sc = ''C'' \<or> sc = ''D'' \<or> sc = ''E''"
  using init_fields(21) [OF assms] by (simp add: select_channel_model_def split: if_splits)

lemma call_new_events:
  "new_events st (snd (call lib m bs e st)) =
     (let st1 = (if scenario m = ''umi'' \<or> scenario m = ''uma'' \<or> scenario m = ''rma''
                 then new_topology lib m bs st else st);
          no = ebnodb2no lib e (num_bits_per_symbol m) (coderate m) (rg m);
          shp = [bs, num_tx m, num_streams_per_tx m, k m];
          src = binary_source_call lib (binary_source m) shp (rng st1);
          b = fst src;
          c = encoder_call lib (encoder m) b;
          x = mapper_call lib (mapper m) c;
          x_rg = rg_mapper_call lib (rg_mapper m) x;
          ch = ofdm_channel_call lib (ofdm_channel m) (topology st1) x_rg no (snd src);
          y = fst (fst ch);
          h = snd (fst ch);
          h_hat = (if perfect_csi m
                   then remove_nulled_subcarriers_call lib (remove_nulled_subcarriers m) h
                   else fst (ls_est_call lib (ls_est m) y no));
          err_var = (if perfect_csi m then PyFloat 0
                     else Tensor (snd (ls_est_call lib (ls_est m) y no)));
          eq = lmmse_equ_call lib (lmmse_equ m) y h_hat err_var no;
          llr = demapper_call lib (demapper m) (fst eq) (snd eq)
      in (if scenario m = ''umi'' \<or> scenario m = ''uma'' \<or> scenario m = ''rma''
          then [EvGenTopology bs (num_ut m) (scenario m) (speed m) (speed m),
                EvSetTopology (fst (gen_topology lib bs (num_ut m) (scenario m) (speed m)
                                      (speed m) (rng st)))]
          else []) @
         [EvEbnodb2no e (num_bits_per_symbol m) (coderate m) (rg m), EvBinarySource shp,
          EvEncoder b, EvMapper c, EvRgMapper x, EvOfdmChannel x_rg no,
          (if perfect_csi m then EvRemoveNulledSubcarriers h else EvLsEst y no),
          EvLmmseEqu y h_hat err_var no, EvDemapper (fst eq) (snd eq), EvDecoder llr])"
  by (simp add: new_events_def call_trace Let_def)

text \<open>
  Claim C4. In a forward pass the channel state information comes from exactly one of two
  sources, chosen by the flag \<open>perfect_csi\<close> given at construction: if it is set, the
  channel returned by the OFDM channel with its nulled subcarriers removed, together with
  the error variance \<open>0.0\<close>; otherwise the output of the LS estimator on the received
  signal and the noise power. Only that one source is called, and the equalizer receives
  its result.
\<close>

theorem call_csi_by_flag:
  assumes "init nds sc pc dir sp cf = Inr m"
  shows
    "\<exists>tp x_rg r.
       (let no = ebnodb2no lib e 2 (1 / 2) (rg m);
            ch = ofdm_channel_call lib (ofdm_channel m) tp x_rg no r;
            y = fst (fst ch);
            h = snd (fst ch);
            est = ls_est_call lib (LSChannelEstimator (rg m) ''nn'') y no
        in filter csi_event (new_events st (snd (call lib m bs e st))) =
             (if pc then
                [EvRemoveNulledSubcarriers h,
                 EvLmmseEqu y (remove_nulled_subcarriers_call lib
                                 (RemoveNulledSubcarriers (rg m)) h) (PyFloat 0) no]
              else
                [EvLsEst y no, EvLmmseEqu y (fst est) (Tensor (snd est)) no]))"
proof -
  note f = init_fields [OF assms]
  define st1 where "st1 = (if scenario m = ''umi'' \<or> scenario m = ''uma'' \<or> scenario m = ''rma''
                 then new_topology lib m bs st else st)"
  define src where "src = binary_source_call lib (binary_source m)
                            [bs, num_tx m, num_streams_per_tx m, k m] (rng st1)"
  define x_rg where "x_rg = rg_mapper_call lib (rg_mapper m)
                      (mapper_call lib (mapper m) (encoder_call lib (encoder m) (fst src)))"
  show ?thesis
    apply (rule exI [of _ "topology st1"])
    apply (rule exI [of _ x_rg])
    apply (rule exI [of _ "snd src"])
    apply (simp add: call_new_events Let_def st1_def src_def x_rg_def)
    apply (simp add: f)
    done
qed

text \<open>
  Claim C10. A forward pass draws a topology and installs it in the channel model exactly
  when the scenario is \<open>umi\<close>, \<open>uma\<close> or \<open>rma\<close>. For the profiles \<open>A\<close> to \<open>E\<close> it makes no
  topology call, leaves the installed topology as it was and does not read the speed of
  the model, which the channel model received as \<open>min_speed\<close> at construction.
\<close>

theorem call_topology_only_stochastic:
  assumes "init nds sc pc dir sp cf = Inr m"
  shows
    "(if sc = ''umi'' \<or> sc = ''uma'' \<or> sc = ''rma'' then
        filter topology_event (new_events st (snd (call lib m bs e st))) =
          [EvGenTopology bs 1 sc sp sp,
           EvSetTopology (fst (gen_topology lib bs 1 sc sp sp (rng st)))] \<and>
        topology (snd (call lib m bs e st)) =
          Some (fst (gen_topology lib bs 1 sc sp sp (rng st)))
      else
        (sc = ''A'' \<or> sc = ''B'' \<or> sc = ''C'' \<or> sc = ''D'' \<or> sc = ''E'') \<and>
        filter topology_event (new_events st (snd (call lib m bs e st))) = [] \<and>
        topology (snd (call lib m bs e st)) = topology st \<and>
        call lib (m\<lparr>speed := v\<rparr>) bs e st = call lib m bs e st \<and>
        channel_model m =
          CDL \<lparr>cdl_model = sc, cdl_delay_spread = 300 / 10 ^ 9, cdl_carrier_frequency = cf,
               cdl_ut_array = ut_array m, cdl_bs_array = bs_array m, cdl_direction = dir,
               cdl_min_speed = sp\<rparr>)"
proof (cases "sc = ''umi'' \<or> sc = ''uma'' \<or> sc = ''rma''")
  case True
  note f = init_fields [OF assms]
  from True show ?thesis
    by (simp add: call_new_events call_topology Let_def f(1,3,4))
next
  case False
  note f = init_fields [OF assms]
  from False init_supported [OF assms]
  have cdl: "sc = ''A'' \<or> sc = ''B'' \<or> sc = ''C'' \<or> sc = ''D'' \<or> sc = ''E''" by blast
  have cm: "channel_model m =
          CDL \<lparr>cdl_model = sc, cdl_delay_spread = 300 / 10 ^ 9, cdl_carrier_frequency = cf,
               cdl_ut_array = ut_array m, cdl_bs_array = bs_array m, cdl_direction = dir,
               cdl_min_speed = sp\<rparr>"
    using f(21) False cdl by (simp add: select_channel_model_def)
  have indep: "call lib (m\<lparr>speed := v\<rparr>) bs e st = call lib m bs e st"
    using False by (simp add: call_def f(1) Let_def split: prod.splits)
  from False cdl cm indep show ?thesis
    by (simp add: call_new_events call_topology Let_def f(1))
qed


lemma init_umi: "init nds_kronecker ''umi'' False ''uplink'' 0 3500000000 = Inr umi_model"
  by (simp add: umi_model_def init_def Let_def select_channel_model_def)

lemma init_cdl_c: "init nds_kronecker ''C'' True ''uplink'' 15 3500000000 = Inr cdl_model_c"
  by (simp add: cdl_model_c_def init_def Let_def select_channel_model_def)

lemmas umi_fields = init_fields [OF init_umi]
lemmas cdl_c_fields = init_fields [OF init_cdl_c]

lemma nds_kronecker_rg [simp]:
  "nds_kronecker \<lparr>rg_num_ofdm_symbols = 14, rg_fft_size = 76, rg_subcarrier_spacing = 30000,
             rg_num_tx = 1, rg_num_streams_per_tx = 4, rg_cyclic_prefix_length = 20,
             rg_pilot_pattern = ''kronecker'', rg_pilot_ofdm_symbol_indices = [2, 11]\<rparr> = 912"
  by (simp add: nds_kronecker_def)

lemma shape_sionna_simps:
  "gen_topology shape_sionna bs nut sc v w r = ([bs, nut], Suc r)"
  "ebnodb2no shape_sionna e q cr g = []"
  "binary_source_call shape_sionna src shp r = (shp, Suc r)"
  "encoder_call shape_sionna (LDPC5GEncoder kk nn) t = butlast t @ [nn]"
  "mapper_call shape_sionna (Mapper c q) t = butlast t @ [last t div q]"
  "rg_mapper_call shape_sionna (ResourceGridMapper g) t =
     take 3 t @ [rg_num_ofdm_symbols g, rg_fft_size g]"
  "ofdm_channel_call shape_sionna oc tp x no r =
     ((take 1 x @ [1, 8] @ drop 3 x, take 1 x @ [1, 8] @ drop 1 x), Suc r)"
  "remove_nulled_subcarriers_call shape_sionna (RemoveNulledSubcarriers g) h =
     butlast h @ [rg_fft_size g]"
  "ls_est_call shape_sionna (LSChannelEstimator g ip) y no =
     (take 3 y @ [rg_num_tx g, rg_num_streams_per_tx g] @ drop 3 y,
      take 3 y @ [rg_num_tx g, rg_num_streams_per_tx g] @ drop 3 y)"
  "lmmse_equ_call shape_sionna (LMMSEEqualizer g s) y h ev no =
     (take 1 y @ [rg_num_tx g, rg_num_streams_per_tx g, nds_kronecker g],
      take 1 y @ [rg_num_tx g, rg_num_streams_per_tx g, nds_kronecker g])"
  "demapper_call shape_sionna (Demapper mth c q) x no = butlast x @ [last x * q]"
  "decoder_call shape_sionna (LDPC5GDecoder (LDPC5GEncoder kk nn)) l = butlast l @ [kk]"
  by (simp_all add: shape_sionna_def)

lemma shape_state_simps:
  "rng shape_state = 0" "topology shape_state = None" "trace shape_state = []"
  by (simp_all add: shape_state_def)

lemma umi_model_simps:
  "k umi_model = 912" "n umi_model = 1824"
  "rg umi_model = \<lparr>rg_num_ofdm_symbols = 14, rg_fft_size = 76, rg_subcarrier_spacing = 30000,
             rg_num_tx = 1, rg_num_streams_per_tx = 4, rg_cyclic_prefix_length = 20,
             rg_pilot_pattern = ''kronecker'', rg_pilot_ofdm_symbol_indices = [2, 11]\<rparr>"
  "sm umi_model = StreamManagement [[1]] 4"
  using umi_fields(9,10,22,23) by simp_all

lemma cdl_model_c_simps:
  "k cdl_model_c = 912" "n cdl_model_c = 1824"
  "rg cdl_model_c = \<lparr>rg_num_ofdm_symbols = 14, rg_fft_size = 76, rg_subcarrier_spacing = 30000,
             rg_num_tx = 1, rg_num_streams_per_tx = 4, rg_cyclic_prefix_length = 20,
             rg_pilot_pattern = ''kronecker'', rg_pilot_ofdm_symbol_indices = [2, 11]\<rparr>"
  "sm cdl_model_c = StreamManagement [[1]] 4"
  using cdl_c_fields(9,10,22,23) by simp_all

theorem init_configures_channel_model_witness:
  "(''C'' = ''A'' \<or> ''C'' = ''B'' \<or> ''C'' = ''C'' \<or> ''C'' = ''D'' \<or> ''C'' = ''E'') \<and>
   (\<exists>m. init nds_kronecker ''C'' True ''uplink'' 15 3500000000 = Inr m \<and>
        channel_model m = CDL \<lparr>cdl_model = ''C'', cdl_delay_spread = 300 / 10 ^ 9,
          cdl_carrier_frequency = 3500000000, cdl_ut_array = ut_array m,
          cdl_bs_array = bs_array m, cdl_direction = ''uplink'', cdl_min_speed = 15\<rparr>)"
  using init_configures_channel_model [where p = "''C''" and nds = nds_kronecker
        and pc = True and dir = "''uplink''" and sp = 15 and cf = 3500000000]
  by simp

theorem init_unsupported_scenario_fails_witness:
  "''F'' \<notin> {''umi'', ''uma'', ''rma'', ''A'', ''B'', ''C'', ''D'', ''E''} \<and>
   init nds_kronecker ''F'' False ''uplink'' 0 3500000000 = Inl AttributeError"
  using init_unsupported_scenario_fails [where sc = "''F''" and nds = nds_kronecker
        and pc = False and dir = "''uplink''" and sp = 0 and cf = 3500000000]
  by simp

theorem init_ldpc_code_witness:
  "init nds_kronecker ''umi'' False ''uplink'' 0 3500000000 = Inr umi_model \<and>
   n umi_model = 1824 \<and> k umi_model = 912 \<and>
   encoder umi_model = LDPC5GEncoder 912 1824 \<and>
   decoder umi_model = LDPC5GDecoder (LDPC5GEncoder 912 1824)"
  using init_ldpc_code [OF init_umi] init_umi umi_model_simps by simp



theorem call_csi_by_flag_witness:
  "init nds_kronecker ''C'' True ''uplink'' 15 3500000000 = Inr cdl_model_c \<and>
   (\<exists>y h. filter csi_event
            (new_events shape_state (snd (call shape_sionna cdl_model_c 76 (- 5) shape_state))) =
          [EvRemoveNulledSubcarriers h, EvLmmseEqu y (butlast h @ [76]) (PyFloat 0) []])"
proof -
  from call_csi_by_flag [OF init_cdl_c, where lib = shape_sionna and bs = 76 and e = "- 5"
        and st = shape_state]
  obtain tp x_rg r where
    "filter csi_event
       (new_events shape_state (snd (call shape_sionna cdl_model_c 76 (- 5) shape_state))) =
     [EvRemoveNulledSubcarriers
        (snd (fst (ofdm_channel_call shape_sionna (ofdm_channel cdl_model_c) tp x_rg [] r))),
      EvLmmseEqu (fst (fst (ofdm_channel_call shape_sionna (ofdm_channel cdl_model_c) tp x_rg [] r)))
        (butlast (snd (fst (ofdm_channel_call shape_sionna (ofdm_channel cdl_model_c) tp x_rg [] r)))
           @ [76])
        (PyFloat 0) []]"
    by (auto simp: Let_def cdl_model_c_simps shape_sionna_simps)
  then show ?thesis
    using init_cdl_c by blast
qed

theorem call_topology_only_stochastic_witness:
  "init nds_kronecker ''C'' True ''uplink'' 15 3500000000 = Inr cdl_model_c \<and>
   topology (snd (call shape_sionna cdl_model_c 76 (- 5) shape_state)) = None \<and>
   init nds_kronecker ''umi'' False ''uplink'' 0 3500000000 = Inr umi_model \<and>
   topology (snd (call shape_sionna umi_model 76 (- 5) shape_state)) = Some [76, 1]"
  using call_topology_only_stochastic [OF init_cdl_c, where lib = shape_sionna and bs = 76
        and e = "- 5" and st = shape_state] init_cdl_c
     call_topology_only_stochastic [OF init_umi, where lib = shape_sionna and bs = 76
        and e = "- 5" and st = shape_state] init_umi
  by (simp add: shape_sionna_simps shape_state_simps)

lemma mc_loop_props:
  "mc_loop errs target left i acc = (nb, a) \<Longrightarrow>
     nb \<le> i + left \<and> i \<le> nb \<and> a = acc + (\<Sum>j = i..<nb. errs j) \<and>
     (nb < i + left \<longrightarrow> target \<le> a) \<and>
     (\<forall>j. i < j \<and> j < nb \<longrightarrow> acc + (\<Sum>l = i..<j. errs l) < target)"
proof (induction left arbitrary: i acc)
  case 0
  then show ?case by simp
next
  case (Suc left)
  show ?case
  proof (cases "target \<le> acc + errs i")
    case True
    with Suc.prems show ?thesis by (auto simp: Let_def)
  next
    case False
    with Suc.prems have rec: "mc_loop errs target left (Suc i) (acc + errs i) = (nb, a)"
      by (simp add: Let_def)
    note ih = Suc.IH [OF rec]
    from ih have le: "Suc i \<le> nb" by simp
    have split_sum: "\<And>j. Suc i \<le> j \<Longrightarrow> (\<Sum>l = i..<j. errs l) = errs i + (\<Sum>l = Suc i..<j. errs l)"
      by (simp add: sum.atLeast_Suc_lessThan)
    have a: "a = acc + (\<Sum>j = i..<nb. errs j)"
      using ih le by (simp add: split_sum)
    have early: "\<forall>j. i < j \<and> j < nb \<longrightarrow> acc + (\<Sum>l = i..<j. errs l) < target"
    proof (intro allI impI)
      fix j assume j: "i < j \<and> j < nb"
      show "acc + (\<Sum>l = i..<j. errs l) < target"
      proof (cases "j = Suc i")
        case True
        with False show ?thesis by simp
      next
        case False
        with j have "Suc i < j \<and> j < nb" by simp
        with ih have "acc + errs i + (\<Sum>l = Suc i..<j. errs l) < target" by blast
        with j show ?thesis by (simp add: split_sum)
      qed
    qed
    from ih have b1: "nb \<le> i + Suc left" and b4: "nb < i + Suc left \<longrightarrow> target \<le> a"
      by auto
    from le have b2: "i \<le> nb" by simp
    from b1 b2 a b4 early show ?thesis by blast
  qed
qed

lemma arange_sweep:
  "arange (- 5) 15 1 = [- 5, - 4, - 3, - 2, - 1, 0, 1, 2, 3, 4, 5, 6, 7, 8, 9, 10, 11, 12, 13, 14]"
  by (simp add: arange_def upt_rec)

lemma index_simps [simp]:
  "index (x # xs) 0 = Inr x" "index (x # y # xs) (Suc 0) = Inr y" "index [] i = Inl IndexError"
  by (simp_all add: index_def)

lemma init_Inr:
  assumes "sc = ''umi'' \<or> sc = ''uma'' \<or> sc = ''rma'' \<or> sc = ''A'' \<or> sc = ''B''
         \<or> sc = ''C'' \<or> sc = ''D'' \<or> sc = ''E''"
  shows "\<exists>m. init nds sc pc dir sp cf = Inr m"
  using assms by (auto simp: init_def Let_def select_channel_model_def)


lemma scenario_loop_frame:
  "scenario_loop sim nds spd cf scs s = Inr s' \<Longrightarrow>
     sims_ebno_db (sims s') = sims_ebno_db (sims s) \<and>
     sims_perfect_csi (sims s') = sims_perfect_csi (sims s) \<and>
     sims_direction (sims s') = sims_direction (sims s)"
proof (induction scs arbitrary: s)
  case Nil
  then show ?case by simp
next
  case (Cons sc scs)
  from Cons.prems show ?case
    by (auto simp: Let_def split: sum.splits prod.splits dest!: Cons.IH)
qed

lemma scenario_loop_lengths:
  "scenario_loop sim nds spd cf scs s = Inr s' \<Longrightarrow>
     length (sims_ber (sims s')) = length (sims_ber (sims s)) + length scs \<and>
     length (sims_bler (sims s')) = length (sims_bler (sims s)) + length scs \<and>
     length (sim_ber_calls s') = length (sim_ber_calls s) + length scs"
proof (induction scs arbitrary: s)
  case Nil
  then show ?case by simp
next
  case (Cons sc scs)
  from Cons.prems show ?case
    by (auto simp: Let_def split: sum.splits prod.splits dest!: Cons.IH)
qed

lemma scenario_loop_curves:
  assumes "sim_ber_curves sim"
  shows "scenario_loop sim nds spd cf scs s = Inr s' \<Longrightarrow>
     N = length (sims_ebno_db (sims s)) \<Longrightarrow>
     list_all (\<lambda>l. length l = N) (sims_ber (sims s)) \<Longrightarrow>
     list_all (\<lambda>l. length l = N) (sims_bler (sims s)) \<Longrightarrow>
     list_all (\<lambda>l. length l = N) (sims_ber (sims s')) \<and>
     list_all (\<lambda>l. length l = N) (sims_bler (sims s'))"
proof (induction scs arbitrary: s)
  case Nil
  then show ?case by simp
next
  case (Cons sc scs)
  from Cons.prems(1) obtain pcsi dir model ber bler w where
    step: "sim model (sims_ebno_db (sims s)) 76 100 1000 (world s) = ((ber, bler), w)"
    and rec: "scenario_loop sim nds spd cf scs
           (s\<lparr>sims := (sims s)\<lparr>sims_ber := sims_ber (sims s) @ [ber],
                                sims_bler := sims_bler (sims s) @ [bler]\<rparr>,
              world := w,
              sim_ber_calls := sim_ber_calls s @
                [\<lparr>sb_model = model, sb_ebno_dbs = sims_ebno_db (sims s), sb_batch_size = 76,
                  sb_max_mc_iter = 100, sb_num_target_block_errors = 1000\<rparr>]\<rparr>) = Inr s'"
    by (auto simp: Let_def split: sum.splits prod.splits)
  from assms step have len: "length ber = length (sims_ebno_db (sims s))"
    "length bler = length (sims_ebno_db (sims s))"
    unfolding sim_ber_curves_def by (metis fst_conv, metis fst_conv snd_conv)
  show ?case
    by (rule Cons.IH [OF rec]) (use Cons.prems len in simp_all)
qed

lemma scenario_loop_calls:
  "scenario_loop sim nds spd cf scs s = Inr s' \<Longrightarrow>
     E = sims_ebno_db (sims s) \<Longrightarrow>
     list_all (\<lambda>c. sb_ebno_dbs c = E \<and> sb_batch_size c = 76 \<and> sb_max_mc_iter c = 100 \<and>
                   sb_num_target_block_errors c = 1000) (sim_ber_calls s) \<Longrightarrow>
     list_all (\<lambda>c. sb_ebno_dbs c = E \<and> sb_batch_size c = 76 \<and> sb_max_mc_iter c = 100 \<and>
                   sb_num_target_block_errors c = 1000) (sim_ber_calls s')"
proof (induction scs arbitrary: s)
  case Nil
  then show ?case by simp
next
  case (Cons sc scs)
  from Cons.prems(1) obtain pcsi dir model ber bler w where
    rec: "scenario_loop sim nds spd cf scs
           (s\<lparr>sims := (sims s)\<lparr>sims_ber := sims_ber (sims s) @ [ber],
                                sims_bler := sims_bler (sims s) @ [bler]\<rparr>,
              world := w,
              sim_ber_calls := sim_ber_calls s @
                [\<lparr>sb_model = model, sb_ebno_dbs = sims_ebno_db (sims s), sb_batch_size = 76,
                  sb_max_mc_iter = 100, sb_num_target_block_errors = 1000\<rparr>]\<rparr>) = Inr s'"
    by (auto simp: Let_def split: sum.splits prod.splits)
  show ?case
    by (rule Cons.IH [OF rec]) (use Cons.prems in simp_all)
qed

lemma scenario_loop_succeeds:
  "set scs \<subseteq> {''umi'', ''uma'', ''rma'', ''A'', ''B'', ''C'', ''D'', ''E''} \<Longrightarrow>
   sims_perfect_csi (sims s) = p0 # p1 # ps \<Longrightarrow>
   sims_direction (sims s) = d0 # ds \<Longrightarrow>
   \<exists>s'. scenario_loop sim nds spd cf scs s = Inr s'"
proof (induction scs arbitrary: s)
  case Nil
  then show ?case by simp
next
  case (Cons sc scs)
  from Cons.prems(1) have "sc = ''umi'' \<or> sc = ''uma'' \<or> sc = ''rma'' \<or> sc = ''A'' \<or> sc = ''B''
         \<or> sc = ''C'' \<or> sc = ''D'' \<or> sc = ''E''" by auto
  from init_Inr [OF this] obtain model where m: "init nds sc p1 d0 spd cf = Inr model"
    by blast
  obtain ber bler w where
    step: "sim model (sims_ebno_db (sims s)) 76 100 1000 (world s) = ((ber, bler), w)"
    by (metis prod.exhaust)
  have "\<exists>s'. scenario_loop sim nds spd cf scs
           (s\<lparr>sims := (sims s)\<lparr>sims_ber := sims_ber (sims s) @ [ber],
                                sims_bler := sims_bler (sims s) @ [bler]\<rparr>,
              world := w,
              sim_ber_calls := sim_ber_calls s @
                [\<lparr>sb_model = model, sb_ebno_dbs = sims_ebno_db (sims s), sb_batch_size = 76,
                  sb_max_mc_iter = 100, sb_num_target_block_errors = 1000\<rparr>]\<rparr>) = Inr s'"
    by (rule Cons.IH) (use Cons.prems in simp_all)
  with m step Cons.prems(2,3) show ?case
    by (simp add: Let_def)
qed


lemma driver_start:
  assumes "init nds ''umi'' False ''uplink'' 0 3500000000 = Inr m"
  shows "driver sim nds t0 t1 (script_start w) =
     Inr \<lparr>sims = MOBILITY_SIMS
             \<lparr>sims_ber := [fst (fst (sim m (sims_ebno_db MOBILITY_SIMS) 76 100 1000 w))],
              sims_bler := [snd (fst (sim m (sims_ebno_db MOBILITY_SIMS) 76 100 1000 w))],
              sims_duration := Some (t1 - t0)\<rparr>,
          world = snd (sim m (sims_ebno_db MOBILITY_SIMS) 76 100 1000 w),
          sim_ber_calls = [\<lparr>sb_model = m, sb_ebno_dbs = sims_ebno_db MOBILITY_SIMS,
             sb_batch_size = 76, sb_max_mc_iter = 100, sb_num_target_block_errors = 1000\<rparr>]\<rparr>"
  using assms
  by (simp add: driver_def script_start_def MOBILITY_SIMS_def Let_def split: prod.splits)

text \<open>
  Claim C3, as the code has it. The driver runs one simulation for the scenario listed in
  the study configuration (\<open>umi\<close>), at the first listed speed (0 m/s), the first listed
  carrier frequency (3.5 GHz), with estimated CSI (the second listed value of
  \<open>perfect_csi\<close>) and in the uplink, and records its BER and BLER curves. The other listed
  speeds, carrier frequencies and the perfect-CSI assumption are not swept: the loops over
  them are commented out in the source.
\<close>

theorem driver_runs_one_simulation:
  "\<exists>m s. init nds ''umi'' False ''uplink'' 0 3500000000 = Inr m \<and>
     driver sim nds t0 t1 (script_start w) = Inr s \<and>
     sim_ber_calls s = [\<lparr>sb_model = m, sb_ebno_dbs = sims_ebno_db MOBILITY_SIMS,
             sb_batch_size = 76, sb_max_mc_iter = 100, sb_num_target_block_errors = 1000\<rparr>] \<and>
     scenario m = ''umi'' \<and> speed m = 0 \<and> carrier_frequency m = 3500000000 \<and>
     perfect_csi m = False \<and> direction m = ''uplink'' \<and>
     sims_ber (sims s) = [fst (fst (sim m (sims_ebno_db MOBILITY_SIMS) 76 100 1000 w))] \<and>
     sims_bler (sims s) = [snd (fst (sim m (sims_ebno_db MOBILITY_SIMS) 76 100 1000 w))]"
proof -
  obtain m where m: "init nds ''umi'' False ''uplink'' 0 3500000000 = Inr m"
    using init_Inr [of "''umi''"] by blast
  from m have "scenario m = ''umi'' \<and> speed m = 0 \<and> carrier_frequency m = 3500000000 \<and>
     perfect_csi m = False \<and> direction m = ''uplink''"
    by (auto simp: init_def Let_def split: option.splits)
  with m show ?thesis
    by (simp add: driver_start [OF m])
qed

lemma driver_study_result: "driver sim_ber_flat nds_kronecker 0 1 (script_start ()) = Inr study_result"
  by (simp add: study_result_def driver_start [OF init_umi])

lemma study_result_calls:
  "sim_ber_calls study_result = [\<lparr>sb_model = umi_model, sb_ebno_dbs = sims_ebno_db MOBILITY_SIMS,
             sb_batch_size = 76, sb_max_mc_iter = 100, sb_num_target_block_errors = 1000\<rparr>]"
  by (simp add: study_result_def driver_start [OF init_umi])

text \<open>
  Claim C3 as stated asks for a simulation for each listed combination of speed, carrier
  frequency and CSI assumption. The combination of 15 m/s, 3.5 GHz and estimated CSI is
  listed in the configuration, and the driver runs no simulation for it.
\<close>

theorem driver_skips_listed_combinations:
  "driver sim_ber_flat nds_kronecker 0 1 (script_start ()) = Inr study_result \<and>
   15 \<in> set (sims_speed MOBILITY_SIMS) \<and>
   3500000000 \<in> set (sims_carrier_frequency MOBILITY_SIMS) \<and>
   False \<in> set (sims_perfect_csi MOBILITY_SIMS) \<and>
   map (\<lambda>c. (speed (sb_model c), carrier_frequency (sb_model c), perfect_csi (sb_model c)))
     (sim_ber_calls study_result) = [(0, 3500000000, False)] \<and>
   \<not> simulated study_result 15 3500000000 False"
  using driver_study_result umi_fields(2,3) init_umi
  by (simp add: simulated_def study_result_calls MOBILITY_SIMS_def init_carrier_frequency)

text \<open>
  Claim C5. The driver calls \<open>sim_ber\<close> with batch size 76, at most 100 Monte-Carlo
  iterations and a target of 1000 block errors. For every Eb/N0 point of the sweep the
  loop then simulates at most 100 batches; it ends before the hundredth only with at
  least 1000 block errors accumulated, and it simulates no batch after the target has been
  reached.
\<close>

theorem sim_ber_batches_bounded:
  assumes "driver sim nds t0 t1 (script_start w) = Inr s"
    and "c \<in> set (sim_ber_calls s)"
  shows "sb_batch_size c = 76 \<and> sb_max_mc_iter c = 100 \<and>
         sb_num_target_block_errors c = 1000 \<and>
         list_all2 (\<lambda>p (nb, acc).
             nb \<le> 100 \<and> (nb < 100 \<longrightarrow> 1000 \<le> acc) \<and> acc = (\<Sum>j<nb. errs p j) \<and>
             (\<forall>j. 0 < j \<and> j < nb \<longrightarrow> (\<Sum>l<j. errs p l) < 1000))
           (sb_ebno_dbs c)
           (sim_ber_batches errs (sb_ebno_dbs c) (sb_max_mc_iter c)
              (sb_num_target_block_errors c))"
proof -
  obtain m where m: "init nds ''umi'' False ''uplink'' 0 3500000000 = Inr m"
    using init_Inr [of "''umi''"] by blast
  from assms driver_start [OF m, of sim t0 t1 w]
  have c: "sb_batch_size c = 76" "sb_max_mc_iter c = 100" "sb_num_target_block_errors c = 1000"
    by auto
  have loop: "case mc_loop (errs p) 1000 100 0 0 of (nb, acc) \<Rightarrow>
             nb \<le> 100 \<and> (nb < 100 \<longrightarrow> 1000 \<le> acc) \<and> acc = (\<Sum>j<nb. errs p j) \<and>
             (\<forall>j. 0 < j \<and> j < nb \<longrightarrow> (\<Sum>l<j. errs p l) < 1000)" for p
  proof -
    obtain nb acc where r: "mc_loop (errs p) 1000 100 0 0 = (nb, acc)"
      by (metis prod.exhaust)
    from mc_loop_props [OF r] show ?thesis
      by (auto simp: r lessThan_atLeast0)
  qed
  have "list_all2 (\<lambda>p (nb, acc).
             nb \<le> 100 \<and> (nb < 100 \<longrightarrow> 1000 \<le> acc) \<and> acc = (\<Sum>j<nb. errs p j) \<and>
             (\<forall>j. 0 < j \<and> j < nb \<longrightarrow> (\<Sum>l<j. errs p l) < 1000))
           (sb_ebno_dbs c) (sim_ber_batches errs (sb_ebno_dbs c) 100 1000)"
    unfolding sim_ber_batches_def list_all2_map2
    by (rule list_all2_refl) (use loop in simp)
  with c show ?thesis by simp
qed


lemma mc_loop_13: "mc_loop (\<lambda>j. 13) 1000 100 0 0 = (77, 1001)"
  by code_simp

theorem sim_ber_batches_bounded_witness:
  "driver sim_ber_flat nds_kronecker 0 1 (script_start ()) = Inr study_result \<and>
   hd (sim_ber_calls study_result) \<in> set (sim_ber_calls study_result) \<and>
   sb_max_mc_iter (hd (sim_ber_calls study_result)) = 100 \<and>
   list_all2 (\<lambda>p (nb, acc).
             nb \<le> 100 \<and> (nb < 100 \<longrightarrow> 1000 \<le> acc) \<and> acc = (\<Sum>j<nb. 13) \<and>
             (\<forall>j. 0 < j \<and> j < nb \<longrightarrow> (\<Sum>l<j. 13) < (1000 :: nat)))
      (sims_ebno_db MOBILITY_SIMS)
      (sim_ber_batches (\<lambda>p j. 13) (sims_ebno_db MOBILITY_SIMS) 100 1000) \<and>
   mc_loop (\<lambda>j. 13) 1000 100 0 0 = (77, 1001)"
  using sim_ber_batches_bounded [OF driver_study_result, of "hd (sim_ber_calls study_result)"
      "\<lambda>p j. 13"] driver_study_result mc_loop_13
  by (simp add: study_result_calls)

lemma sim_ber_flat_curves: "sim_ber_curves sim_ber_flat"
  by (simp add: sim_ber_curves_def sim_ber_flat_def)

text \<open>
  Claim C7. For every scenario simulated the driver appends exactly one BER list and one
  BLER list to the results, each with one value per Eb/N0 point of the sweep
  \<open>np.arange(-5, 15, 1.0)\<close>: 20 points, from -5 dB to 14 dB.
\<close>

theorem driver_records_curves:
  assumes "sim_ber_curves sim"
    and "set scs \<subseteq> {''umi'', ''uma'', ''rma'', ''A'', ''B'', ''C'', ''D'', ''E''}"
  shows "\<exists>s. driver sim nds t0 t1
               ((script_start w)\<lparr>sims := MOBILITY_SIMS\<lparr>sims_scenario := scs\<rparr>\<rparr>) = Inr s \<and>
     length (sim_ber_calls s) = length scs \<and>
     length (sims_ber (sims s)) = length scs \<and>
     length (sims_bler (sims s)) = length scs \<and>
     list_all (\<lambda>l. length l = 20) (sims_ber (sims s)) \<and>
     list_all (\<lambda>l. length l = 20) (sims_bler (sims s)) \<and>
     sims_ebno_db (sims s) =
       [- 5, - 4, - 3, - 2, - 1, 0, 1, 2, 3, 4, 5, 6, 7, 8, 9, 10, 11, 12, 13, 14]"
proof -
  define s0 where "s0 = (script_start w)\<lparr>sims := MOBILITY_SIMS\<lparr>sims_scenario := scs\<rparr>\<rparr>"
  have s0: "sims_perfect_csi (sims s0) = [True, False]"
    "sims_direction (sims s0) = [''uplink'', ''downlink'']"
    "sims_speed (sims s0) = [0, 15, 30]"
    "sims_carrier_frequency (sims s0) = [3500000000, 28000000000, 60000000000]"
    "sims_scenario (sims s0) = scs" "sims_ber (sims s0) = []" "sims_bler (sims s0) = []"
    "sim_ber_calls s0 = []"
    "sims_ebno_db (sims s0) =
       [- 5, - 4, - 3, - 2, - 1, 0, 1, 2, 3, 4, 5, 6, 7, 8, 9, 10, 11, 12, 13, 14]"
    by (simp_all add: s0_def script_start_def MOBILITY_SIMS_def arange_sweep)
  obtain s1 where s1: "scenario_loop sim nds 0 3500000000 scs s0 = Inr s1"
    using scenario_loop_succeeds [OF assms(2) s0(1) s0(2)] by blast
  have len: "length (sims_ebno_db (sims s0)) = 20"
    by (simp add: s0(9))
  from scenario_loop_frame [OF s1] scenario_loop_lengths [OF s1]
    scenario_loop_curves [OF assms(1) s1 len [symmetric]]
  have r: "sims_ebno_db (sims s1) = sims_ebno_db (sims s0)"
    "length (sims_ber (sims s1)) = length scs" "length (sims_bler (sims s1)) = length scs"
    "length (sim_ber_calls s1) = length scs"
    "list_all (\<lambda>l. length l = 20) (sims_ber (sims s1))"
    "list_all (\<lambda>l. length l = 20) (sims_bler (sims s1))"
    by (simp_all add: s0)
  have "driver sim nds t0 t1 s0 = Inr (s1\<lparr>sims := (sims s1)\<lparr>sims_duration := Some (t1 - t0)\<rparr>\<rparr>)"
    by (simp add: driver_def s0 s1)
  with r s0(9) show ?thesis
    unfolding s0_def [symmetric] by simp
qed

theorem driver_records_curves_witness:
  "sim_ber_curves sim_ber_flat \<and>
   set [''umi'', ''C''] \<subseteq> {''umi'', ''uma'', ''rma'', ''A'', ''B'', ''C'', ''D'', ''E''} \<and>
   (\<exists>s. driver sim_ber_flat nds_kronecker 0 1
               ((script_start ())\<lparr>sims := MOBILITY_SIMS\<lparr>sims_scenario := [''umi'', ''C'']\<rparr>\<rparr>) = Inr s \<and>
     length (sims_ber (sims s)) = 2 \<and> length (sims_bler (sims s)) = 2 \<and>
     list_all (\<lambda>l. length l = 20) (sims_ber (sims s)) \<and>
     list_all (\<lambda>l. length l = 20) (sims_bler (sims s)))"
proof -
  have h: "set [''umi'', ''C''] \<subseteq> {''umi'', ''uma'', ''rma'', ''A'', ''B'', ''C'', ''D'', ''E''}"
    by simp
  from driver_records_curves [OF sim_ber_flat_curves h, of nds_kronecker 0 1 "()"]
    sim_ber_flat_curves h
  show ?thesis by auto
qed





end
